theory Spec2Isabelle
  imports Main
begin

section \<open>Calendar dates and their compact form\<close>

text \<open>
  The two date inputs of the sidebar are \<^verbatim>\<open>datetime.date\<close> values. A date is a
  record of year, month and day; \<open>valid_date\<close> is the range a \<^verbatim>\<open>datetime.date\<close> can
  hold. Python compares dates chronologically (\<open>date_gt\<close> is \<^verbatim>\<open>a > b\<close>).
\<close>

record date =
  year :: nat
  month :: nat
  day :: nat

definition is_leap :: "nat \<Rightarrow> bool" where
  "is_leap y = (if y mod 400 = 0 then True else if y mod 100 = 0 then False else y mod 4 = 0)"

definition days_in_month :: "nat \<Rightarrow> nat \<Rightarrow> nat" where
  "days_in_month y m =
     (if m = 2 then (if is_leap y then 29 else 28)
      else if m = 4 \<or> m = 6 \<or> m = 9 \<or> m = 11 then 30 else 31)"

definition valid_date :: "date \<Rightarrow> bool" where
  "valid_date d \<longleftrightarrow>
     1 \<le> year d \<and> year d \<le> 9999 \<and> 1 \<le> month d \<and> month d \<le> 12 \<and>
     1 \<le> day d \<and> day d \<le> days_in_month (year d) (month d)"

definition date_gt :: "date \<Rightarrow> date \<Rightarrow> bool" where
  "date_gt a b \<longleftrightarrow>
     year a > year b \<or>
     (year a = year b \<and> (month a > month b \<or> (month a = month b \<and> day a > day b)))"

text \<open>
  Decimal printing of a natural number (\<^verbatim>\<open>str(n)\<close>) and left padding with zeros.
  \<^verbatim>\<open>strftime("%Y%m%d")\<close> prints the year in four digits and month and day in two,
  as the Python documentation gives the directives.
\<close>

definition digit_char :: "nat \<Rightarrow> char" where
  "digit_char n = ''0123456789'' ! (n mod 10)"

fun dec :: "nat \<Rightarrow> string" where
  "dec n = (if n < 10 then [digit_char n] else dec (n div 10) @ [digit_char n])"

declare dec.simps [simp del]

definition zfill :: "nat \<Rightarrow> string \<Rightarrow> string" where
  "zfill w s = replicate (w - length s) (CHR ''0'') @ s"

definition strftime_Ymd :: "date \<Rightarrow> string" where
  "strftime_Ymd d = zfill 4 (dec (year d)) @ zfill 2 (dec (month d)) @ zfill 2 (dec (day d))"


section \<open>The sidebar and the search expression\<close>

text \<open>
  The widgets of the sidebar: two dates, two free-text fields and the button
  \<^verbatim>\<open>Fetch Drug Labels\<close>. A Python \<^verbatim>\<open>str\<close> is a \<open>string\<close>, one \<open>char\<close> per character; the
  literals of the script are ASCII.
\<close>

record sidebar =
  start_date :: date
  end_date :: date
  manufacturer_name :: string
  generic_name :: string
  fetch_button :: bool

record request_params =
  search :: string
  limit :: nat

definition start_date_str :: "sidebar \<Rightarrow> string" where
  "start_date_str sb = strftime_Ymd (start_date sb)"

definition end_date_str :: "sidebar \<Rightarrow> string" where
  "end_date_str sb = strftime_Ymd (end_date sb)"

definition manufacturer_search :: "sidebar \<Rightarrow> string" where
  "manufacturer_search sb = take 4 (manufacturer_name sb) @ ''*''"

definition generic_search :: "sidebar \<Rightarrow> string" where
  "generic_search sb = take 4 (generic_name sb) @ ''*''"

definition dquote :: char where
  "dquote = CHR 0x22"

text \<open>
  \<open>search_query\<close> follows the assignments to \<^verbatim>\<open>search_query\<close> in the script: the base
  range clause, then the two optional \<^verbatim>\<open>+=\<close>. An empty \<^verbatim>\<open>str\<close> is false in an \<^verbatim>\<open>if\<close>.
\<close>

definition search_query :: "sidebar \<Rightarrow> string" where
  "search_query sb =
     (let q0 = ''effective_time:['' @ start_date_str sb @ '' TO '' @ end_date_str sb @ '']'';
          q1 = (if manufacturer_name sb \<noteq> []
                then q0 @ '' AND openfda.manufacturer_name:'' @ manufacturer_search sb
                else q0);
          q2 = (if generic_name sb \<noteq> []
                then (if length (generic_name sb) > 4
                      then q1 @ '' AND openfda.generic_name.exact:'' @ [dquote] @ generic_name sb @ [dquote]
                      else q1 @ '' AND openfda.generic_name:'' @ generic_search sb)
                else q1)
      in q2)"

definition params :: "sidebar \<Rightarrow> request_params" where
  "params sb = \<lparr>search = search_query sb, limit = 500\<rparr>"


text \<open>The default dates and empty text fields, with the button pressed.\<close>

definition default_sidebar :: sidebar where
  "default_sidebar =
     \<lparr>start_date = \<lparr>year = 2024, month = 10, day = 1\<rparr>,
      end_date = \<lparr>year = 2024, month = 10, day = 30\<rparr>,
      manufacturer_name = [], generic_name = [], fetch_button = True\<rparr>"


section \<open>JSON values and the errors of Python\<close>

text \<open>
  What \<^verbatim>\<open>response.json()\<close> returns: \<^verbatim>\<open>None\<close>, a \<^verbatim>\<open>bool\<close>, a number, a \<^verbatim>\<open>str\<close>, a \<^verbatim>\<open>list\<close>
  or a \<^verbatim>\<open>dict\<close> with \<^verbatim>\<open>str\<close> keys (an association list with one entry per key). The
  exceptions are those the operations of the script raise on such values.
\<close>

datatype json =
  JNull
  | JBool bool
  | JNum int
  | JStr string
  | JArr "json list"
  | JObj "(string \<times> json) list"

datatype py_error = AttributeError | IndexError | KeyError | TypeError

text \<open>\<^verbatim>\<open>obj.get(key, default)\<close>: only a \<^verbatim>\<open>dict\<close> has the method.\<close>

fun py_get :: "json \<Rightarrow> string \<Rightarrow> json \<Rightarrow> py_error + json" where
  "py_get (JObj kvs) key dflt = Inr (case map_of kvs key of None \<Rightarrow> dflt | Some v \<Rightarrow> v)"
| "py_get JNull key dflt = Inl AttributeError"
| "py_get (JBool b) key dflt = Inl AttributeError"
| "py_get (JNum n) key dflt = Inl AttributeError"
| "py_get (JStr s) key dflt = Inl AttributeError"
| "py_get (JArr xs) key dflt = Inl AttributeError"

text \<open>
  \<^verbatim>\<open>obj[0]\<close>: the first element of a \<^verbatim>\<open>list\<close>, the first character of a \<^verbatim>\<open>str\<close>;
  \<^verbatim>\<open>IndexError\<close> when either is empty; \<^verbatim>\<open>KeyError\<close> on a \<^verbatim>\<open>dict\<close>, whose keys are
  strings; \<^verbatim>\<open>TypeError\<close> on the values that cannot be subscripted.
\<close>

fun subscript0 :: "json \<Rightarrow> py_error + json" where
  "subscript0 (JArr []) = Inl IndexError"
| "subscript0 (JArr (x # xs)) = Inr x"
| "subscript0 (JStr []) = Inl IndexError"
| "subscript0 (JStr (c # cs)) = Inr (JStr [c])"
| "subscript0 (JObj kvs) = Inl KeyError"
| "subscript0 JNull = Inl TypeError"
| "subscript0 (JBool b) = Inl TypeError"
| "subscript0 (JNum n) = Inl TypeError"

text \<open>The truth value of an object in \<^verbatim>\<open>if results:\<close>.\<close>

fun truthy :: "json \<Rightarrow> bool" where
  "truthy JNull = False"
| "truthy (JBool b) = b"
| "truthy (JNum n) = (n \<noteq> 0)"
| "truthy (JStr s) = (s \<noteq> [])"
| "truthy (JArr xs) = (xs \<noteq> [])"
| "truthy (JObj kvs) = (kvs \<noteq> [])"

text \<open>
  What \<^verbatim>\<open>for drug in results\<close> runs over: the elements of a \<^verbatim>\<open>list\<close>, the characters of
  a \<^verbatim>\<open>str\<close>, the keys of a \<^verbatim>\<open>dict\<close>; the other values are not iterable.
\<close>

fun py_iter :: "json \<Rightarrow> py_error + json list" where
  "py_iter (JArr xs) = Inr xs"
| "py_iter (JStr s) = Inr (map (\<lambda>c. JStr [c]) s)"
| "py_iter (JObj kvs) = Inr (map (\<lambda>kv. JStr (fst kv)) kvs)"
| "py_iter JNull = Inl TypeError"
| "py_iter (JBool b) = Inl TypeError"
| "py_iter (JNum n) = Inl TypeError"


section \<open>Extracting the fields of a record\<close>

text \<open>
  \<open>openfda_first drug field\<close> is the expression
  \<^verbatim>\<open>drug.get('openfda', {}).get(field, ['N/A'])[0]\<close>. One entry of \<^verbatim>\<open>drug_data\<close> is
  the dictionary literal of the loop body; its four values are evaluated in the order
  written, and the first error raised ends the loop.
\<close>

definition openfda_first :: "json \<Rightarrow> string \<Rightarrow> py_error + json" where
  "openfda_first drug field =
     (case py_get drug ''openfda'' (JObj []) of
        Inl e \<Rightarrow> Inl e
      | Inr openfda \<Rightarrow>
          (case py_get openfda field (JArr [JStr ''N/A'']) of
             Inl e \<Rightarrow> Inl e
           | Inr names \<Rightarrow> subscript0 names))"

record drug_entry =
  Brand_Name :: json
  Generic_Name :: json
  Manufacturer_Name :: json
  Effective_Time :: json

definition drug_entry_of :: "json \<Rightarrow> py_error + drug_entry" where
  "drug_entry_of drug =
     (case openfda_first drug ''brand_name'' of
        Inl e \<Rightarrow> Inl e
      | Inr b \<Rightarrow>
     (case openfda_first drug ''generic_name'' of
        Inl e \<Rightarrow> Inl e
      | Inr g \<Rightarrow>
     (case openfda_first drug ''manufacturer_name'' of
        Inl e \<Rightarrow> Inl e
      | Inr m \<Rightarrow>
     (case py_get drug ''effective_time'' (JStr ''N/A'') of
        Inl e \<Rightarrow> Inl e
      | Inr t \<Rightarrow>
          Inr \<lparr>Brand_Name = b, Generic_Name = g, Manufacturer_Name = m, Effective_Time = t\<rparr>))))"

fun drug_data :: "json list \<Rightarrow> py_error + drug_entry list" where
  "drug_data [] = Inr []"
| "drug_data (drug # rest) =
     (case drug_entry_of drug of
        Inl e \<Rightarrow> Inl e
      | Inr entry \<Rightarrow> (case drug_data rest of Inl e \<Rightarrow> Inl e | Inr entries \<Rightarrow> Inr (entry # entries)))"


section \<open>Parsing the effective time\<close>

text \<open>
  \<^verbatim>\<open>pd.to_datetime(..., errors='coerce', format='%Y%m%d')\<close> on one string. The format is
  matched as \<^verbatim>\<open>strptime\<close> documents it, by the regular expression of the three
  directives: \<^verbatim>\<open>%Y\<close> is four digits, \<^verbatim>\<open>%m\<close> is \<^verbatim>\<open>1[0-2]|0[1-9]|[1-9]\<close> and \<^verbatim>\<open>%d\<close> is
  \<^verbatim>\<open>3[01]|[12]\d|0[1-9]|[1-9]| [1-9]\<close>, alternatives tried in this order; the
  first match must use up the string and name a day of the calendar. Anything else is a
  parse failure, which \<^verbatim>\<open>errors='coerce'\<close> turns into \<^verbatim>\<open>NaT\<close> (\<open>None\<close>).
\<close>

definition is_digit :: "char \<Rightarrow> bool" where
  "is_digit c \<longleftrightarrow> c \<in> set ''0123456789''"

definition digit_val :: "char \<Rightarrow> nat" where
  "digit_val c = of_char c - 48"

definition month_matches :: "string \<Rightarrow> (nat \<times> string) list" where
  "month_matches s =
     (case s of
        c1 # c2 # r \<Rightarrow>
          (if c1 = CHR ''1'' \<and> c2 \<in> set ''012'' then [(10 + digit_val c2, r)] else []) @
          (if c1 = CHR ''0'' \<and> c2 \<in> set ''123456789'' then [(digit_val c2, r)] else [])
      | _ \<Rightarrow> []) @
     (case s of
        c1 # r \<Rightarrow> (if c1 \<in> set ''123456789'' then [(digit_val c1, r)] else [])
      | [] \<Rightarrow> [])"

definition day_matches :: "string \<Rightarrow> (nat \<times> string) list" where
  "day_matches s =
     (case s of
        c1 # c2 # r \<Rightarrow>
          (if c1 = CHR ''3'' \<and> c2 \<in> set ''01'' then [(30 + digit_val c2, r)] else []) @
          (if c1 \<in> set ''12'' \<and> is_digit c2 then [(10 * digit_val c1 + digit_val c2, r)] else []) @
          (if c1 = CHR ''0'' \<and> c2 \<in> set ''123456789'' then [(digit_val c2, r)] else [])
      | _ \<Rightarrow> []) @
     (case s of
        c1 # r \<Rightarrow> (if c1 \<in> set ''123456789'' then [(digit_val c1, r)] else [])
      | [] \<Rightarrow> []) @
     (case s of
        c1 # c2 # r \<Rightarrow>
          (if c1 = CHR '' '' \<and> c2 \<in> set ''123456789'' then [(digit_val c2, r)] else [])
      | _ \<Rightarrow> [])"

definition month_day_match :: "string \<Rightarrow> (nat \<times> nat \<times> string) option" where
  "month_day_match r =
     (case concat (map (\<lambda>(m, r'). map (\<lambda>(d, r''). (m, d, r'')) (day_matches r'))
                       (month_matches r)) of
        [] \<Rightarrow> None
      | found # _ \<Rightarrow> Some found)"

definition strptime_Ymd :: "string \<Rightarrow> date option" where
  "strptime_Ymd s =
     (case s of
        y1 # y2 # y3 # y4 # r \<Rightarrow>
          (if is_digit y1 \<and> is_digit y2 \<and> is_digit y3 \<and> is_digit y4
           then (case month_day_match r of
                   None \<Rightarrow> None
                 | Some (m, d, unconverted) \<Rightarrow>
                     (let y = 1000 * digit_val y1 + 100 * digit_val y2 + 10 * digit_val y3 +
                              digit_val y4
                      in if unconverted = [] \<and> 1 \<le> y \<and> d \<le> days_in_month y m
                         then Some \<lparr>year = y, month = m, day = d\<rparr>
                         else None))
           else None)
      | _ \<Rightarrow> None)"

text \<open>
  A timestamp counts nanoseconds in 64 bits: the days it can hold at midnight run from
  22 September 1677 to 11 April 2262. A date outside these bounds is a conversion error,
  which \<^verbatim>\<open>errors='coerce'\<close> turns into \<^verbatim>\<open>NaT\<close> as well.
\<close>

definition timestamp_min :: date where
  "timestamp_min = \<lparr>year = 1677, month = 9, day = 22\<rparr>"

definition timestamp_max :: date where
  "timestamp_max = \<lparr>year = 2262, month = 4, day = 11\<rparr>"

definition in_timestamp_bounds :: "date \<Rightarrow> bool" where
  "in_timestamp_bounds d \<longleftrightarrow> \<not> date_gt timestamp_min d \<and> \<not> date_gt d timestamp_max"

text \<open>
  What the table library does with an object that is not a date string is taken as a
  parameter: its printed form, and the timestamp it is converted to. The strings
  \<^verbatim>\<open>now\<close> and \<^verbatim>\<open>today\<close>, which the library may read as the current time whatever the
  format, go through the same parameter. \<^verbatim>\<open>None\<close> is a missing value for both.
\<close>

record pandas_objects =
  obj_to_str :: "json \<Rightarrow> string"
  obj_to_datetime :: "json \<Rightarrow> date option"

fun to_datetime_value :: "pandas_objects \<Rightarrow> json \<Rightarrow> date option" where
  "to_datetime_value pd (JStr s) =
     (if s = ''now'' \<or> s = ''today'' then obj_to_datetime pd (JStr s)
      else (case strptime_Ymd s of
              None \<Rightarrow> None
            | Some d \<Rightarrow> (if in_timestamp_bounds d then Some d else None)))"
| "to_datetime_value pd JNull = None"
| "to_datetime_value pd v = obj_to_datetime pd v"

definition to_datetime :: "pandas_objects \<Rightarrow> json list \<Rightarrow> date option list" where
  "to_datetime pd xs = map (to_datetime_value pd) xs"


section \<open>The data frame, the monthly counts and the CSV text\<close>

text \<open>
  A data frame is its columns in order, each a name and the values of one type; all
  columns have one value per row. \<^verbatim>\<open>pd.DataFrame(drug_data)\<close> takes the columns from the
  keys of the dictionaries. \<^verbatim>\<open>df[name] = column\<close> replaces the column of that name where
  it stands, or adds a new last column.
\<close>

type_synonym period = "nat \<times> nat"

datatype column =
  ObjectCol "json list"
  | DatetimeCol "date option list"
  | PeriodCol "period option list"

type_synonym dataframe = "(string \<times> column) list"

definition DataFrame :: "drug_entry list \<Rightarrow> dataframe" where
  "DataFrame entries =
     [(''Brand Name'', ObjectCol (map Brand_Name entries)),
      (''Generic Name'', ObjectCol (map Generic_Name entries)),
      (''Manufacturer Name'', ObjectCol (map Manufacturer_Name entries)),
      (''Effective Time'', ObjectCol (map Effective_Time entries))]"

definition setitem :: "dataframe \<Rightarrow> string \<Rightarrow> column \<Rightarrow> dataframe" where
  "setitem df name col =
     (if name \<in> set (map fst df)
      then map (\<lambda>(n, c). if n = name then (n, col) else (n, c)) df
      else df @ [(name, col)])"

text \<open>
  \<^verbatim>\<open>.dt.to_period('M')\<close> keeps year and month of a timestamp and leaves \<^verbatim>\<open>NaT\<close> as it is.
  \<^verbatim>\<open>groupby(...).size()\<close> drops the missing keys, and gives one entry per distinct key with
  the number of its rows, the keys in ascending order; monthly periods are ordered by
  their ordinal, the number of months since January 1970.
\<close>

definition to_period_M :: "date option list \<Rightarrow> period option list" where
  "to_period_M ts = map (map_option (\<lambda>d. (year d, month d))) ts"

definition period_ordinal :: "period \<Rightarrow> int" where
  "period_ordinal p = (int (fst p) - 1970) * 12 + (int (snd p) - 1)"

definition groupby_size :: "period option list \<Rightarrow> (period \<times> nat) list" where
  "groupby_size ps =
     (let keys = [k. Some k \<leftarrow> ps]
      in map (\<lambda>k. (k, count_list keys k)) (sort_key period_ordinal (remdups keys)))"

text \<open>
  \<^verbatim>\<open>df.to_csv(index=False)\<close>: a header record with the column names, then one record per
  row, no index field. A string is written as it is, a timestamp at midnight as its
  date, a period as year and month, a missing value as the empty field. Fields are
  separated by commas; a field holding a comma, a double quote or a line break is put
  between double quotes, with its double quotes doubled; each record ends with a line
  feed.
\<close>

definition str_date :: "date \<Rightarrow> string" where
  "str_date d = zfill 4 (dec (year d)) @ ''-'' @ zfill 2 (dec (month d)) @ ''-'' @ zfill 2 (dec (day d))"

definition str_period :: "period \<Rightarrow> string" where
  "str_period p = zfill 4 (dec (fst p)) @ ''-'' @ zfill 2 (dec (snd p))"

fun str_object :: "pandas_objects \<Rightarrow> json \<Rightarrow> string" where
  "str_object pd (JStr s) = s"
| "str_object pd JNull = []"
| "str_object pd v = obj_to_str pd v"

fun column_fields :: "pandas_objects \<Rightarrow> column \<Rightarrow> string list" where
  "column_fields pd (ObjectCol xs) = map (str_object pd) xs"
| "column_fields pd (DatetimeCol ts) = map (\<lambda>t. case t of None \<Rightarrow> [] | Some d \<Rightarrow> str_date d) ts"
| "column_fields pd (PeriodCol ps) = map (\<lambda>p. case p of None \<Rightarrow> [] | Some m \<Rightarrow> str_period m) ps"

fun column_length :: "column \<Rightarrow> nat" where
  "column_length (ObjectCol xs) = length xs"
| "column_length (DatetimeCol ts) = length ts"
| "column_length (PeriodCol ps) = length ps"

definition n_rows :: "dataframe \<Rightarrow> nat" where
  "n_rows df = (case df of [] \<Rightarrow> 0 | (n, c) # _ \<Rightarrow> column_length c)"

definition csv_records :: "pandas_objects \<Rightarrow> dataframe \<Rightarrow> string list list" where
  "csv_records pd df =
     map fst df #
     map (\<lambda>i. map (\<lambda>(n, c). column_fields pd c ! i) df) [0..<n_rows df]"

definition csv_field :: "string \<Rightarrow> string" where
  "csv_field s =
     (if \<exists>c \<in> set s. c = CHR '','' \<or> c = dquote \<or> c = CHR 0x0A \<or> c = CHR 0x0D
      then [dquote] @ concat (map (\<lambda>c. if c = dquote then [dquote, dquote] else [c]) s) @ [dquote]
      else s)"

fun join_fields :: "string list \<Rightarrow> string" where
  "join_fields [] = []"
| "join_fields [f] = f"
| "join_fields (f # fs) = f @ '','' @ join_fields fs"

definition csv_line :: "string list \<Rightarrow> string" where
  "csv_line cells = join_fields (map csv_field cells) @ [CHR 0x0A]"

definition to_csv :: "pandas_objects \<Rightarrow> dataframe \<Rightarrow> string" where
  "to_csv pd df = concat (map csv_line (csv_records pd df))"


section \<open>The request and what the page shows\<close>

text \<open>
  The registry is what \<^verbatim>\<open>requests.get(url, params=params)\<close> does for given parameters: it
  raises a \<^verbatim>\<open>RequestException\<close> or returns a response. A response has its status code,
  reason and address, and the outcome of \<^verbatim>\<open>response.json()\<close>: the decoded body, or the
  message of the \<^verbatim>\<open>requests.exceptions.JSONDecodeError\<close> raised for a body that is not
  JSON, which is a \<^verbatim>\<open>RequestException\<close> too. An exception carries its message.
\<close>

datatype request_exception =
  ConnectionError string
  | HTTPError string
  | JSONDecodeError string

fun exception_str :: "request_exception \<Rightarrow> string" where
  "exception_str (ConnectionError msg) = msg"
| "exception_str (HTTPError msg) = msg"
| "exception_str (JSONDecodeError msg) = msg"

record response =
  status_code :: nat
  reason :: string
  response_url :: string
  json_body :: "string + json"

type_synonym registry = "request_params \<Rightarrow> request_exception + response"

text \<open>\<^verbatim>\<open>response.raise_for_status()\<close> raises for the status codes 400 to 599.\<close>

definition raise_for_status :: "response \<Rightarrow> request_exception + unit" where
  "raise_for_status r =
     (if 400 \<le> status_code r \<and> status_code r < 500
      then Inl (HTTPError (dec (status_code r) @ '' Client Error: '' @ reason r @
                           '' for url: '' @ response_url r))
      else if 500 \<le> status_code r \<and> status_code r < 600
      then Inl (HTTPError (dec (status_code r) @ '' Server Error: '' @ reason r @
                           '' for url: '' @ response_url r))
      else Inr ())"

text \<open>
  The calls that put something on the page, from the date check on, and the result of
  one run of the script: the requests it sent, what it showed, and the exception that
  ended it, if one was raised that the script does not catch.
\<close>

datatype ui_event =
  St_error string
  | St_info string
  | St_dataframe dataframe
  | St_subheader string
  | St_pyplot "(period \<times> nat) list"
  | St_download_button string

record app_result =
  requests_sent :: "request_params list"
  display :: "ui_event list"
  uncaught :: "py_error option"

text \<open>
  The body of \<^verbatim>\<open>if results:\<close>. The column read by \<^verbatim>\<open>to_datetime\<close> is the one the frame was
  built with, the column read by \<^verbatim>\<open>.dt.to_period\<close> and by \<^verbatim>\<open>groupby\<close> the one assigned just
  before.
\<close>

definition effective_times :: "pandas_objects \<Rightarrow> drug_entry list \<Rightarrow> date option list" where
  "effective_times pd entries = to_datetime pd (map Effective_Time entries)"

definition df :: "pandas_objects \<Rightarrow> drug_entry list \<Rightarrow> dataframe" where
  "df pd entries =
     (let df0 = DataFrame entries;
          df1 = setitem df0 ''Effective Time'' (DatetimeCol (effective_times pd entries));
          df2 = setitem df1 ''Approval Month'' (PeriodCol (to_period_M (effective_times pd entries)))
      in df2)"

definition monthly_counts :: "date option list \<Rightarrow> (period \<times> nat) list" where
  "monthly_counts ts = groupby_size (to_period_M ts)"

definition csv :: "pandas_objects \<Rightarrow> drug_entry list \<Rightarrow> string" where
  "csv pd entries = to_csv pd (df pd entries)"

definition show_results :: "pandas_objects \<Rightarrow> json \<Rightarrow> py_error + ui_event list" where
  "show_results pd results =
     (case py_iter results of
        Inl e \<Rightarrow> Inl e
      | Inr drugs \<Rightarrow>
          (case drug_data drugs of
             Inl e \<Rightarrow> Inl e
           | Inr entries \<Rightarrow>
               Inr [St_dataframe (df pd entries),
                    St_subheader ''Monthly Drug Approvals'',
                    St_pyplot (monthly_counts (effective_times pd entries)),
                    St_download_button (csv pd entries)]))"

text \<open>The \<^verbatim>\<open>try\<close> block under the button, with its \<^verbatim>\<open>except\<close> clause.\<close>

definition fetch_error :: "request_exception \<Rightarrow> ui_event" where
  "fetch_error e = St_error (''Error fetching data from FDA API: '' @ exception_str e)"

definition fetch_drug_labels :: "pandas_objects \<Rightarrow> registry \<Rightarrow> request_params \<Rightarrow> app_result" where
  "fetch_drug_labels pd get p =
     (case get p of
        Inl e \<Rightarrow> \<lparr>requests_sent = [p], display = [fetch_error e], uncaught = None\<rparr>
      | Inr resp \<Rightarrow>
     (case raise_for_status resp of
        Inl e \<Rightarrow> \<lparr>requests_sent = [p], display = [fetch_error e], uncaught = None\<rparr>
      | Inr _ \<Rightarrow>
     (case json_body resp of
        Inl msg \<Rightarrow>
          \<lparr>requests_sent = [p], display = [fetch_error (JSONDecodeError msg)], uncaught = None\<rparr>
      | Inr data \<Rightarrow>
     (case py_get data ''results'' (JArr []) of
        Inl err \<Rightarrow> \<lparr>requests_sent = [p], display = [], uncaught = Some err\<rparr>
      | Inr results \<Rightarrow>
          (if truthy results
           then (case show_results pd results of
                   Inl err \<Rightarrow> \<lparr>requests_sent = [p], display = [], uncaught = Some err\<rparr>
                 | Inr shown \<Rightarrow> \<lparr>requests_sent = [p], display = shown, uncaught = None\<rparr>)
           else \<lparr>requests_sent = [p],
                 display = [St_info ''No drug labels found for the selected parameters.''],
                 uncaught = None\<rparr>)))))"

text \<open>The script from the date check on.\<close>

definition main :: "pandas_objects \<Rightarrow> registry \<Rightarrow> sidebar \<Rightarrow> app_result" where
  "main pd get sb =
     (if date_gt (start_date sb) (end_date sb)
      then \<lparr>requests_sent = [],
            display = [St_error ''Error: Start Date must be before End Date.''],
            uncaught = None\<rparr>
      else if fetch_button sb
      then fetch_drug_labels pd get (params sb)
      else \<lparr>requests_sent = [], display = [], uncaught = None\<rparr>)"

text \<open>The chronological order of two months.\<close>

definition period_lt :: "period \<Rightarrow> period \<Rightarrow> bool" where
  "period_lt p q \<longleftrightarrow> fst p < fst q \<or> (fst p = fst q \<and> snd p < snd q)"


section \<open>Sample inputs\<close>

text \<open>
  A table library that prints every other object as the empty string and converts it to
  no timestamp, a response with status 200 and a given body, and one entry of
  \<^verbatim>\<open>drug_data\<close>.
\<close>

definition sample_pandas :: pandas_objects where
  "sample_pandas = \<lparr>obj_to_str = (\<lambda>v. []), obj_to_datetime = (\<lambda>v. None)\<rparr>"

definition sample_response :: "string + json \<Rightarrow> response" where
  "sample_response body =
     \<lparr>status_code = 200, reason = ''OK'',
      response_url = ''https://api.fda.gov/drug/label.json'', json_body = body\<rparr>"

definition sample_entry :: drug_entry where
  "sample_entry =
     \<lparr>Brand_Name = JStr ''Advil'', Generic_Name = JStr ''Ibuprofen'',
      Manufacturer_Name = JStr ''Pfizer'', Effective_Time = JStr ''20241015''\<rparr>"



section \<open>Properties of the search expression\<close>

lemma dec_1digit: "n < 10 \<Longrightarrow> dec n = [digit_char n]"
  by (subst dec.simps) simp

lemma dec_2digit:
  assumes "10 \<le> n" "n < 100"
  shows "dec n = [digit_char (n div 10), digit_char n]"
proof -
  from assms have "n div 10 < 10" by linarith
  with assms show ?thesis
    by (subst dec.simps) (simp add: dec_1digit)
qed

lemma dec_3digit:
  assumes "100 \<le> n" "n < 1000"
  shows "dec n = [digit_char (n div 100), digit_char (n div 10), digit_char n]"
proof -
  from assms have "10 \<le> n div 10" "n div 10 < 100" by linarith+
  then have "dec (n div 10) = [digit_char (n div 10 div 10), digit_char (n div 10)]"
    by (rule dec_2digit)
  moreover have "n div 10 div 10 = n div 100"
    by (simp add: div_mult2_eq [symmetric])
  ultimately show ?thesis
    using assms by (subst dec.simps) simp
qed

lemma dec_4digit:
  assumes "1000 \<le> n" "n < 10000"
  shows "dec n =
    [digit_char (n div 1000), digit_char (n div 100), digit_char (n div 10), digit_char n]"
proof -
  from assms have "100 \<le> n div 10" "n div 10 < 1000" by linarith+
  then have "dec (n div 10) =
      [digit_char (n div 10 div 100), digit_char (n div 10 div 10), digit_char (n div 10)]"
    by (rule dec_3digit)
  moreover have "n div 10 div 100 = n div 1000" "n div 10 div 10 = n div 100"
    by (simp_all add: div_mult2_eq [symmetric])
  ultimately show ?thesis
    using assms by (subst dec.simps) simp
qed

lemma digit_char_zero: "digit_char 0 = CHR ''0''"
  by (simp add: digit_char_def)

lemma replicate_2: "replicate 2 c = [c, c]"
  by (simp add: numeral_2_eq_2)

lemma replicate_3: "replicate 3 c = [c, c, c]"
  by (simp add: numeral_3_eq_3)

lemma zfill2: "n < 100 \<Longrightarrow> zfill 2 (dec n) = [digit_char (n div 10), digit_char n]"
proof (cases "n < 10")
  case True
  then show ?thesis by (simp add: zfill_def dec_1digit digit_char_zero)
next
  case False
  assume "n < 100"
  with False show ?thesis by (simp add: zfill_def dec_2digit)
qed

lemma zfill4:
  assumes "n < 10000"
  shows "zfill 4 (dec n) =
    [digit_char (n div 1000), digit_char (n div 100), digit_char (n div 10), digit_char n]"
proof -
  consider "n < 10" | "10 \<le> n" "n < 100" | "100 \<le> n" "n < 1000" | "1000 \<le> n"
    by linarith
  then show ?thesis
  proof cases
    case 1
    then show ?thesis
      by (simp add: zfill_def dec_1digit digit_char_zero replicate_3)
  next
    case 2
    then show ?thesis
      by (simp add: zfill_def dec_2digit digit_char_zero replicate_2)
  next
    case 3
    then show ?thesis
      by (simp add: zfill_def dec_3digit digit_char_zero)
  next
    case 4
    with assms show ?thesis
      by (simp add: zfill_def dec_4digit)
  qed
qed

lemma days_in_month_le: "days_in_month y m \<le> 31"
  by (simp add: days_in_month_def)

lemma strftime_Ymd_form:
  assumes "valid_date d"
  shows "strftime_Ymd d =
    [digit_char (year d div 1000), digit_char (year d div 100), digit_char (year d div 10),
     digit_char (year d),
     digit_char (month d div 10), digit_char (month d),
     digit_char (day d div 10), digit_char (day d)]"
proof -
  from assms have y: "year d < 10000" and m: "month d < 100"
    by (simp_all add: valid_date_def)
  from assms have "day d \<le> days_in_month (year d) (month d)"
    by (simp add: valid_date_def)
  with days_in_month_le [of "year d" "month d"] have dd: "day d < 100"
    by linarith
  show ?thesis
    by (simp add: strftime_Ymd_def zfill4 [OF y] zfill2 [OF m] zfill2 [OF dd])
qed

text \<open>
  C6. Whenever the start date is not later than the end date, the search expression
  begins with the range clause \<^verbatim>\<open>effective_time:[START TO END]\<close>, where START and END are
  the two dates printed as eight digits: four of the year, two of the month, two of the
  day.
\<close>

theorem date_range_clause:
  assumes "\<not> date_gt (start_date sb) (end_date sb)"
    and "valid_date (start_date sb)" and "valid_date (end_date sb)"
  shows "(\<exists>post. search (params sb) =
            ''effective_time:['' @ strftime_Ymd (start_date sb) @ '' TO '' @
            strftime_Ymd (end_date sb) @ '']'' @ post) \<and>
         strftime_Ymd (start_date sb) =
           [digit_char (year (start_date sb) div 1000), digit_char (year (start_date sb) div 100),
            digit_char (year (start_date sb) div 10), digit_char (year (start_date sb)),
            digit_char (month (start_date sb) div 10), digit_char (month (start_date sb)),
            digit_char (day (start_date sb) div 10), digit_char (day (start_date sb))] \<and>
         strftime_Ymd (end_date sb) =
           [digit_char (year (end_date sb) div 1000), digit_char (year (end_date sb) div 100),
            digit_char (year (end_date sb) div 10), digit_char (year (end_date sb)),
            digit_char (month (end_date sb) div 10), digit_char (month (end_date sb)),
            digit_char (day (end_date sb) div 10), digit_char (day (end_date sb))]"
proof -
  have "\<exists>post. search (params sb) =
      ''effective_time:['' @ strftime_Ymd (start_date sb) @ '' TO '' @
      strftime_Ymd (end_date sb) @ '']'' @ post"
    by (simp add: params_def search_query_def Let_def start_date_str_def end_date_str_def)
  with strftime_Ymd_form [OF assms(2)] strftime_Ymd_form [OF assms(3)]
  show ?thesis by blast
qed

theorem date_range_clause_witness:
  "\<exists>post. search (params default_sidebar) = ''effective_time:[20241001 TO 20241030]'' @ post"
  using date_range_clause [of default_sidebar]
  by (auto simp: default_sidebar_def date_gt_def valid_date_def days_in_month_def is_leap_def
      digit_char_def)



text \<open>
  C7 (as amended). For a non-empty manufacturer input the expression holds, right after
  the range clause, the AND-ed clause on the manufacturer field made of the first four
  characters of the input and the wildcard \<^verbatim>\<open>*\<close>. No character after the fourth is used:
  the expression is the one the four-character prefix alone gives. For an input longer
  than four characters, the search term holds the whole input exactly when the input is
  its own first four characters followed by \<^verbatim>\<open>*\<close>.
\<close>

theorem manufacturer_clause:
  assumes "manufacturer_name sb \<noteq> []"
  shows "(\<exists>post. search_query sb =
            ''effective_time:['' @ start_date_str sb @ '' TO '' @ end_date_str sb @ '']'' @
            '' AND openfda.manufacturer_name:'' @ take 4 (manufacturer_name sb) @ ''*'' @ post) \<and>
         manufacturer_search sb = take 4 (manufacturer_name sb) @ ''*'' \<and>
         search_query (sb\<lparr>manufacturer_name := take 4 (manufacturer_name sb)\<rparr>) = search_query sb \<and>
         (length (manufacturer_name sb) > 4 \<longrightarrow>
            ((\<exists>pre post. manufacturer_search sb = pre @ manufacturer_name sb @ post) \<longleftrightarrow>
             manufacturer_name sb = take 4 (manufacturer_name sb) @ ''*''))"
proof -
  have long: "(\<exists>pre post. manufacturer_search sb = pre @ manufacturer_name sb @ post) \<longleftrightarrow>
      manufacturer_name sb = take 4 (manufacturer_name sb) @ ''*''"
    if l: "length (manufacturer_name sb) > 4"
  proof
    assume "\<exists>pre post. manufacturer_search sb = pre @ manufacturer_name sb @ post"
    then obtain pre post where eq: "manufacturer_search sb = pre @ manufacturer_name sb @ post"
      by blast
    from l have "length (manufacturer_search sb) = 5"
      by (simp add: manufacturer_search_def)
    with eq have "length pre + length (manufacturer_name sb) + length post = 5"
      by simp
    with l have "length pre = 0" and "length post = 0"
      by linarith+
    then have "pre = []" and "post = []"
      by simp_all
    with eq show "manufacturer_name sb = take 4 (manufacturer_name sb) @ ''*''"
      by (simp add: manufacturer_search_def)
  next
    assume "manufacturer_name sb = take 4 (manufacturer_name sb) @ ''*''"
    then have "manufacturer_search sb = [] @ manufacturer_name sb @ []"
      by (simp add: manufacturer_search_def)
    then show "\<exists>pre post. manufacturer_search sb = pre @ manufacturer_name sb @ post"
      by blast
  qed
  from assms have nonempty: "take 4 (manufacturer_name sb) \<noteq> []"
    by simp
  have same: "search_query (sb\<lparr>manufacturer_name := take 4 (manufacturer_name sb)\<rparr>) =
      search_query sb"
    using assms nonempty
    by (simp add: search_query_def Let_def manufacturer_search_def generic_search_def
        start_date_str_def end_date_str_def)
  have "\<exists>post. search_query sb =
      ''effective_time:['' @ start_date_str sb @ '' TO '' @ end_date_str sb @ '']'' @
      '' AND openfda.manufacturer_name:'' @ take 4 (manufacturer_name sb) @ ''*'' @ post"
    using assms by (simp add: search_query_def Let_def manufacturer_search_def)
  with long same show ?thesis
    by (simp add: manufacturer_search_def)
qed

lemma default_dates_str:
  "start_date_str (default_sidebar\<lparr>manufacturer_name := m\<rparr>) = ''20241001''"
  "end_date_str (default_sidebar\<lparr>manufacturer_name := m\<rparr>) = ''20241030''"
  using strftime_Ymd_form [of "\<lparr>year = 2024, month = 10, day = 1\<rparr>"]
    strftime_Ymd_form [of "\<lparr>year = 2024, month = 10, day = 30\<rparr>"]
  by (simp_all add: start_date_str_def end_date_str_def default_sidebar_def valid_date_def
      days_in_month_def digit_char_def)

text \<open>
  The five-character input \<^verbatim>\<open>Pfiz*\<close>: the search term is the whole input, and the
  expression ends with it.
\<close>

theorem manufacturer_clause_counterexample:
  "length (manufacturer_name (default_sidebar\<lparr>manufacturer_name := ''Pfiz*''\<rparr>)) = 5 \<and>
   manufacturer_search (default_sidebar\<lparr>manufacturer_name := ''Pfiz*''\<rparr>) =
     manufacturer_name (default_sidebar\<lparr>manufacturer_name := ''Pfiz*''\<rparr>) \<and>
   search_query (default_sidebar\<lparr>manufacturer_name := ''Pfiz*''\<rparr>) =
     ''effective_time:[20241001 TO 20241030] AND openfda.manufacturer_name:'' @
     manufacturer_name (default_sidebar\<lparr>manufacturer_name := ''Pfiz*''\<rparr>)"
  by (simp add: search_query_def Let_def default_dates_str manufacturer_search_def)
    (simp add: default_sidebar_def)

theorem manufacturer_clause_witness:
  "search_query (default_sidebar\<lparr>manufacturer_name := ''Pfizer''\<rparr>) =
     ''effective_time:[20241001 TO 20241030] AND openfda.manufacturer_name:Pfiz*'' \<and>
   manufacturer_search (default_sidebar\<lparr>manufacturer_name := ''Pfizer''\<rparr>) = ''Pfiz*'' \<and>
   search_query (default_sidebar\<lparr>manufacturer_name := ''Pfiz''\<rparr>) =
     search_query (default_sidebar\<lparr>manufacturer_name := ''Pfizer''\<rparr>) \<and>
   \<not> (\<exists>pre post. manufacturer_search (default_sidebar\<lparr>manufacturer_name := ''Pfizer''\<rparr>) =
        pre @ ''Pfizer'' @ post)"
proof -
  have gen: "generic_name (default_sidebar\<lparr>manufacturer_name := ''Pfizer''\<rparr>) = []"
    by (simp add: default_sidebar_def)
  from manufacturer_clause [of "default_sidebar\<lparr>manufacturer_name := ''Pfizer''\<rparr>"]
  have ms: "manufacturer_search (default_sidebar\<lparr>manufacturer_name := ''Pfizer''\<rparr>) = ''Pfiz*''"
    and eq: "search_query (default_sidebar\<lparr>manufacturer_name := ''Pfiz''\<rparr>) =
      search_query (default_sidebar\<lparr>manufacturer_name := ''Pfizer''\<rparr>)"
    and no: "\<not> (\<exists>pre post. manufacturer_search (default_sidebar\<lparr>manufacturer_name := ''Pfizer''\<rparr>) =
        pre @ ''Pfizer'' @ post)"
    by simp_all
  have "search_query (default_sidebar\<lparr>manufacturer_name := ''Pfizer''\<rparr>) =
      ''effective_time:[20241001 TO 20241030] AND openfda.manufacturer_name:Pfiz*''"
    by (simp add: search_query_def Let_def default_dates_str gen manufacturer_search_def)
  with ms eq no show ?thesis by blast
qed


section \<open>Properties of the monthly counts\<close>

lemma present_keys_length:
  "length [k. Some k \<leftarrow> ps] = length (filter (\<lambda>p. p \<noteq> None) ps)"
  by (induction ps) (auto split: option.splits)

lemma present_keys_count:
  "count_list [k. Some k \<leftarrow> ps] k = length (filter (\<lambda>p. p = Some k) ps)"
  by (induction ps) (auto split: option.splits)

lemma present_keys_set: "set [k. Some k \<leftarrow> ps] = {k. Some k \<in> set ps}"
  by (induction ps) (auto split: option.splits)

lemma present_keys_filter:
  "[k. Some k \<leftarrow> filter (\<lambda>p. p \<noteq> None) ps] = [k. Some k \<leftarrow> ps]"
  by (induction ps) (auto split: option.splits)

lemma groupby_size_keys:
  "map fst (groupby_size ps) = sort_key period_ordinal (remdups [k. Some k \<leftarrow> ps])"
  by (simp add: groupby_size_def Let_def comp_def)

lemma groupby_size_distinct: "distinct (map fst (groupby_size ps))"
  by (simp only: groupby_size_keys distinct_sort distinct_remdups)

lemma groupby_size_sorted: "sorted (map period_ordinal (map fst (groupby_size ps)))"
  by (simp only: groupby_size_keys sorted_sort_key)

lemma groupby_size_set: "set (map fst (groupby_size ps)) = {k. Some k \<in> set ps}"
  by (simp only: groupby_size_keys set_sort set_remdups present_keys_set)

lemma groupby_size_entry:
  "(k, c) \<in> set (groupby_size ps) \<Longrightarrow>
   c = length (filter (\<lambda>p. p = Some k) ps) \<and> Some k \<in> set ps"
  by (auto simp: groupby_size_def Let_def present_keys_count present_keys_set)

lemma groupby_size_filter: "groupby_size (filter (\<lambda>p. p \<noteq> None) ps) = groupby_size ps"
  by (simp only: groupby_size_def present_keys_filter)

lemma groupby_size_total:
  "sum_list (map snd (groupby_size ps)) = length (filter (\<lambda>p. p \<noteq> None) ps)"
proof -
  let ?keys = "[k. Some k \<leftarrow> ps]"
  have "map snd (groupby_size ps) =
      map (count_list ?keys) (sort_key period_ordinal (remdups ?keys))"
    by (simp add: groupby_size_def Let_def comp_def)
  then have "sum_list (map snd (groupby_size ps)) =
      sum (count_list ?keys) (set (sort_key period_ordinal (remdups ?keys)))"
    by (simp only: sum_list_distinct_conv_sum_set distinct_sort distinct_remdups)
  also have "\<dots> = sum (count_list ?keys) (set ?keys)"
    by (simp only: set_sort set_remdups)
  also have "\<dots> = length ?keys"
    by (rule sum_count_set, rule subset_refl, rule finite_set)
  finally show ?thesis
    by (simp only: present_keys_length)
qed

lemma to_period_M_present:
  "filter (\<lambda>p. p \<noteq> None) (to_period_M ts) = to_period_M (filter (\<lambda>t. t \<noteq> None) ts)"
  by (induction ts) (auto simp: to_period_M_def)

lemma length_to_period_M: "length (to_period_M ts) = length ts"
  by (simp add: to_period_M_def)

lemma period_ordinal_chronological:
  assumes "1 \<le> snd p" "snd p \<le> 12" "1 \<le> snd q" "snd q \<le> 12"
    and "period_ordinal p \<le> period_ordinal q" and "p \<noteq> q"
  shows "period_lt p q"
proof -
  obtain y m where p: "p = (y, m)" by (cases p)
  obtain y' m' where q: "q = (y', m')" by (cases q)
  from assms show ?thesis
    unfolding p q period_lt_def period_ordinal_def by auto
qed

lemma sorted_distinct_wrt:
  "sorted (map f xs) \<Longrightarrow> distinct xs \<Longrightarrow> sorted_wrt (\<lambda>a b. f a \<le> f b \<and> a \<noteq> b) xs"
  by (induction xs) auto

lemma groupby_size_image: "fst ` set (groupby_size ps) = {k. Some k \<in> set ps}"
  using groupby_size_set [of ps] by simp

lemma monthly_counts_keys:
  "fst ` set (monthly_counts ts) = {k. \<exists>d. Some d \<in> set ts \<and> k = (year d, month d)}"
proof -
  have "{k. Some k \<in> set (to_period_M ts)} = {k. \<exists>d. Some d \<in> set ts \<and> k = (year d, month d)}"
    by (induction ts) (auto simp: to_period_M_def map_option_case split: option.splits)
  then show ?thesis
    by (simp only: monthly_counts_def groupby_size_image)
qed

lemma monthly_counts_sorted:
  assumes "\<forall>d. Some d \<in> set ts \<longrightarrow> 1 \<le> month d \<and> month d \<le> 12"
  shows "sorted_wrt (\<lambda>a b. period_lt (fst a) (fst b)) (monthly_counts ts)"
proof -
  let ?ks = "map fst (monthly_counts ts)"
  have valid: "1 \<le> snd k \<and> snd k \<le> 12" if "k \<in> set ?ks" for k
  proof -
    from that have "k \<in> fst ` set (monthly_counts ts)"
      by simp
    then obtain d where "Some d \<in> set ts" and "k = (year d, month d)"
      unfolding monthly_counts_keys by blast
    with assms show ?thesis by simp
  qed
  have "sorted_wrt (\<lambda>a b. period_ordinal a \<le> period_ordinal b \<and> a \<noteq> b) ?ks"
    unfolding monthly_counts_def
    by (rule sorted_distinct_wrt [OF groupby_size_sorted groupby_size_distinct])
  then have "sorted_wrt period_lt ?ks"
  proof (rule sorted_wrt_mono_rel [rotated])
    fix p q
    assume "p \<in> set ?ks" and "q \<in> set ?ks"
      and "period_ordinal p \<le> period_ordinal q \<and> p \<noteq> q"
    with valid [of p] valid [of q] show "period_lt p q"
      by (intro period_ordinal_chronological) simp_all
  qed
  then show ?thesis
    by (simp add: sorted_wrt_map)
qed

text \<open>
  C4. The monthly counts are taken from the effective times of the rows alone. Rows without a
  date do not count: the result is that of the dated rows. There is one bucket per year
  and month of a dated row and no other; its count is the number of dated rows of that
  month; the buckets stand in ascending chronological order. Rows dated 2024-10-05,
  2024-10-20 and 2024-11-02 with one undated row give the two buckets 2024-10 with count
  2 and then 2024-11 with count 1.
\<close>

theorem monthly_counts_buckets:
  assumes "\<forall>d. Some d \<in> set ts \<longrightarrow> 1 \<le> month d \<and> month d \<le> 12"
  shows "monthly_counts (filter (\<lambda>t. t \<noteq> None) ts) = monthly_counts ts \<and>
         set (map fst (monthly_counts ts)) = {k. \<exists>d. Some d \<in> set ts \<and> k = (year d, month d)} \<and>
         (\<forall>k c. (k, c) \<in> set (monthly_counts ts) \<longrightarrow>
            c = length (filter (\<lambda>t. \<exists>d. t = Some d \<and> (year d, month d) = k) ts) \<and> 0 < c) \<and>
         distinct (map fst (monthly_counts ts)) \<and>
         sorted_wrt (\<lambda>a b. period_lt (fst a) (fst b)) (monthly_counts ts) \<and>
         monthly_counts
           [Some \<lparr>year = 2024, month = 10, day = 5\<rparr>, Some \<lparr>year = 2024, month = 10, day = 20\<rparr>,
            Some \<lparr>year = 2024, month = 11, day = 2\<rparr>, None] =
           [((2024, 10), 2), ((2024, 11), 1)]"
proof -
  have a: "monthly_counts (filter (\<lambda>t. t \<noteq> None) ts) = monthly_counts ts"
    by (simp only: monthly_counts_def to_period_M_present [symmetric] groupby_size_filter)
  have b: "set (map fst (monthly_counts ts)) = {k. \<exists>d. Some d \<in> set ts \<and> k = (year d, month d)}"
    using monthly_counts_keys [of ts] by simp
  have c: "c = length (filter (\<lambda>t. \<exists>d. t = Some d \<and> (year d, month d) = k) ts) \<and> 0 < c"
    if "(k, c) \<in> set (monthly_counts ts)" for k c
  proof -
    from that have c: "c = length (filter (\<lambda>p. p = Some k) (to_period_M ts))"
      and k: "Some k \<in> set (to_period_M ts)"
      by (auto simp: monthly_counts_def dest: groupby_size_entry)
    have "filter (\<lambda>p. p = Some k) (to_period_M ts) =
        to_period_M (filter (\<lambda>t. \<exists>d. t = Some d \<and> (year d, month d) = k) ts)"
      by (induction ts) (auto simp: to_period_M_def)
    with c have "c = length (filter (\<lambda>t. \<exists>d. t = Some d \<and> (year d, month d) = k) ts)"
      by (simp add: length_to_period_M)
    moreover from k c have "0 < c"
      by (simp add: filter_empty_conv)
    ultimately show ?thesis ..
  qed
  have d: "distinct (map fst (monthly_counts ts))"
    by (simp only: monthly_counts_def groupby_size_distinct)
  have e: "monthly_counts
           [Some \<lparr>year = 2024, month = 10, day = 5\<rparr>, Some \<lparr>year = 2024, month = 10, day = 20\<rparr>,
            Some \<lparr>year = 2024, month = 11, day = 2\<rparr>, None] =
           [((2024, 10), 2), ((2024, 11), 1)]"
    by (simp add: monthly_counts_def groupby_size_def to_period_M_def period_ordinal_def)
  from a b c d e monthly_counts_sorted [OF assms] show ?thesis
    by blast
qed

theorem monthly_counts_buckets_witness:
  "sorted_wrt (\<lambda>a b. period_lt (fst a) (fst b))
     (monthly_counts
        [None, Some \<lparr>year = 2024, month = 11, day = 2\<rparr>, Some \<lparr>year = 2024, month = 10, day = 5\<rparr>,
         Some \<lparr>year = 2024, month = 10, day = 20\<rparr>]) \<and>
   monthly_counts
     [None, Some \<lparr>year = 2024, month = 11, day = 2\<rparr>, Some \<lparr>year = 2024, month = 10, day = 5\<rparr>,
      Some \<lparr>year = 2024, month = 10, day = 20\<rparr>] =
   monthly_counts
     [Some \<lparr>year = 2024, month = 11, day = 2\<rparr>, Some \<lparr>year = 2024, month = 10, day = 5\<rparr>,
      Some \<lparr>year = 2024, month = 10, day = 20\<rparr>]"
  using monthly_counts_buckets
    [of "[None, Some \<lparr>year = 2024, month = 11, day = 2\<rparr>, Some \<lparr>year = 2024, month = 10, day = 5\<rparr>,
          Some \<lparr>year = 2024, month = 10, day = 20\<rparr>]"]
  by auto

text \<open>
  C10. The counts of all buckets add up to the number of rows that have an effective
  time.
\<close>

theorem monthly_counts_total:
  "sum_list (map snd (monthly_counts ts)) = length (filter (\<lambda>t. t \<noteq> None) ts)"
  by (simp only: monthly_counts_def groupby_size_total to_period_M_present length_to_period_M)

section \<open>Properties of the CSV export\<close>

lemma df_columns:
  "df pd entries =
     [(''Brand Name'', ObjectCol (map Brand_Name entries)),
      (''Generic Name'', ObjectCol (map Generic_Name entries)),
      (''Manufacturer Name'', ObjectCol (map Manufacturer_Name entries)),
      (''Effective Time'', DatetimeCol (effective_times pd entries)),
      (''Approval Month'', PeriodCol (to_period_M (effective_times pd entries)))]"
  by (simp add: df_def Let_def DataFrame_def setitem_def)

lemma length_effective_times: "length (effective_times pd entries) = length entries"
  by (simp add: effective_times_def to_datetime_def)

lemma n_rows_df: "n_rows (df pd entries) = length entries"
  by (simp add: df_columns n_rows_def)

lemma csv_records_df:
  "csv_records pd (df pd entries) =
     [''Brand Name'', ''Generic Name'', ''Manufacturer Name'', ''Effective Time'', ''Approval Month''] #
     map (\<lambda>e. [str_object pd (Brand_Name e), str_object pd (Generic_Name e),
                str_object pd (Manufacturer_Name e),
                (case to_datetime_value pd (Effective_Time e) of None \<Rightarrow> [] | Some d \<Rightarrow> str_date d),
                (case to_datetime_value pd (Effective_Time e) of
                   None \<Rightarrow> [] | Some d \<Rightarrow> str_period (year d, month d))])
         entries"
proof -
  have "map (\<lambda>i. map (\<lambda>(n, c). column_fields pd c ! i) (df pd entries)) [0..<length entries] =
      map (\<lambda>e. [str_object pd (Brand_Name e), str_object pd (Generic_Name e),
                str_object pd (Manufacturer_Name e),
                (case to_datetime_value pd (Effective_Time e) of None \<Rightarrow> [] | Some d \<Rightarrow> str_date d),
                (case to_datetime_value pd (Effective_Time e) of
                   None \<Rightarrow> [] | Some d \<Rightarrow> str_period (year d, month d))])
         entries"
    by (rule nth_equalityI)
      (simp_all add: df_columns effective_times_def to_datetime_def to_period_M_def
        split: option.splits)
  then show ?thesis
    by (simp add: csv_records_def n_rows_df) (simp add: df_columns)
qed

text \<open>
  C2 (as amended). The CSV export has the header record with the five columns Brand Name,
  Generic Name, Manufacturer Name, Effective Time and Approval Month, then exactly one
  record per row of the table, each of the same five fields and none for an index; the
  text is these records, one per line.
\<close>

theorem csv_export_columns:
  "hd (csv_records pd (df pd entries)) =
     [''Brand Name'', ''Generic Name'', ''Manufacturer Name'', ''Effective Time'', ''Approval Month''] \<and>
   length (tl (csv_records pd (df pd entries))) = length entries \<and>
   map length (csv_records pd (df pd entries)) = replicate (Suc (length entries)) 5 \<and>
   tl (csv_records pd (df pd entries)) =
     map (\<lambda>e. [str_object pd (Brand_Name e), str_object pd (Generic_Name e),
                str_object pd (Manufacturer_Name e),
                (case to_datetime_value pd (Effective_Time e) of None \<Rightarrow> [] | Some d \<Rightarrow> str_date d),
                (case to_datetime_value pd (Effective_Time e) of
                   None \<Rightarrow> [] | Some d \<Rightarrow> str_period (year d, month d))])
         entries \<and>
   csv pd entries = concat (map csv_line (csv_records pd (df pd entries)))"
proof -
  have "map length (csv_records pd (df pd entries)) = replicate (Suc (length entries)) 5"
    by (simp add: csv_records_df comp_def map_replicate_const)
  then show ?thesis
    by (simp add: csv_records_df csv_def to_csv_def)
qed

lemma strptime_20241015: "strptime_Ymd ''20241015'' = Some \<lparr>year = 2024, month = 10, day = 15\<rparr>"
  by (simp add: strptime_Ymd_def is_digit_def digit_val_def month_day_match_def month_matches_def
      day_matches_def days_in_month_def)


lemma sample_records:
  "csv_records sample_pandas (df sample_pandas [sample_entry]) =
     [[''Brand Name'', ''Generic Name'', ''Manufacturer Name'', ''Effective Time'', ''Approval Month''],
      [''Advil'', ''Ibuprofen'', ''Pfizer'', ''2024-10-15'', ''2024-10'']]"
  by (simp add: csv_records_df sample_entry_def strptime_20241015 in_timestamp_bounds_def
      timestamp_min_def timestamp_max_def date_gt_def str_date_def str_period_def
      zfill4 zfill2 digit_char_def)

text \<open>
  For one row, the export has a fifth column, Approval Month, after the four columns of
  the normalized row.
\<close>

theorem csv_header_counterexample:
  "csv sample_pandas [sample_entry] =
     ''Brand Name,Generic Name,Manufacturer Name,Effective Time,Approval Month'' @ [CHR 0x0A] @
     ''Advil,Ibuprofen,Pfizer,2024-10-15,2024-10'' @ [CHR 0x0A] \<and>
   hd (csv_records sample_pandas (df sample_pandas [sample_entry])) \<noteq>
     [''Brand Name'', ''Generic Name'', ''Manufacturer Name'', ''Effective Time'']"
  by (simp add: csv_def to_csv_def sample_records csv_line_def csv_field_def dquote_def)

theorem csv_export_columns_witness:
  "tl (csv_records sample_pandas (df sample_pandas [sample_entry])) =
     [[''Advil'', ''Ibuprofen'', ''Pfizer'', ''2024-10-15'', ''2024-10'']]"
  using csv_export_columns [of sample_pandas "[sample_entry]"]
  by (simp add: sample_entry_def strptime_20241015 in_timestamp_bounds_def
      timestamp_min_def timestamp_max_def date_gt_def str_date_def str_period_def
      zfill4 zfill2 digit_char_def)

section \<open>Properties of the fetch\<close>

lemma show_results_length: "show_results pd results = Inr shown \<Longrightarrow> length shown = 4"
  by (auto simp: show_results_def split: sum.splits)

lemma requests_sent_fetch: "requests_sent (fetch_drug_labels pd get p) = [p]"
  by (simp add: fetch_drug_labels_def split: sum.splits)

lemma raise_for_status_Inl:
  "(\<exists>e. raise_for_status r = Inl e) \<longleftrightarrow> 400 \<le> status_code r \<and> status_code r < 600"
  by (auto simp: raise_for_status_def)

lemma fetch_display_error:
  "(\<exists>e. display (fetch_drug_labels pd get p) = [fetch_error e]) \<longleftrightarrow>
     (\<exists>e. get p = Inl e) \<or>
     (\<exists>r. get p = Inr r \<and>
        ((400 \<le> status_code r \<and> status_code r < 600) \<or> (\<exists>msg. json_body r = Inl msg)))"
proof (cases "get p")
  case (Inl e)
  then show ?thesis by (auto simp: fetch_drug_labels_def)
next
  case (Inr r)
  show ?thesis
  proof (cases "raise_for_status r")
    case (Inl e)
    with raise_for_status_Inl [of r] have "400 \<le> status_code r \<and> status_code r < 600"
      by auto
    with Inl \<open>get p = Inr r\<close> show ?thesis
      by (auto simp: fetch_drug_labels_def)
  next
    case ok: (Inr u)
    with raise_for_status_Inl [of r] have st: "\<not> (400 \<le> status_code r \<and> status_code r < 600)"
      by auto
    show ?thesis
    proof (cases "json_body r")
      case (Inl msg)
      with ok \<open>get p = Inr r\<close> show ?thesis
        by (auto simp: fetch_drug_labels_def)
    next
      case (Inr data)
      have "display (fetch_drug_labels pd get p) \<noteq> [fetch_error e]" for e
        using ok Inr \<open>get p = Inr r\<close>
        by (auto simp: fetch_drug_labels_def fetch_error_def dest: show_results_length
            split: sum.splits)
      with st Inr \<open>get p = Inr r\<close> show ?thesis
        by auto
    qed
  qed
qed

lemma fetch_empty_result:
  assumes "get p = Inr r" and "\<not> (400 \<le> status_code r \<and> status_code r < 600)"
    and "json_body r = Inr (JObj kvs)"
    and "map_of kvs ''results'' = None \<or> map_of kvs ''results'' = Some (JArr [])"
  shows "fetch_drug_labels pd get p =
    \<lparr>requests_sent = [p],
     display = [St_info ''No drug labels found for the selected parameters.''],
     uncaught = None\<rparr>"
proof -
  from assms(2) have "raise_for_status r = Inr ()"
    by (auto simp: raise_for_status_def)
  with assms(1,3,4) show ?thesis
    by (auto simp: fetch_drug_labels_def)
qed

text \<open>
  C8 (as amended). With valid dates and the button pressed, the page shows the error of
  a failed fetch, and nothing else, exactly when the request raises at the transport
  level, or the response has a status from 400 to 599, or its body is not JSON. A
  response that passes these checks and whose JSON object has no \<^verbatim>\<open>results\<close> key or an
  empty \<^verbatim>\<open>results\<close> array gives the informational message and no error.
\<close>

theorem fetch_error_cases:
  assumes "\<not> date_gt (start_date sb) (end_date sb)" and "fetch_button sb"
  shows "((\<exists>e. display (main pd get sb) = [fetch_error e]) \<longleftrightarrow>
            (\<exists>e. get (params sb) = Inl e) \<or>
            (\<exists>r. get (params sb) = Inr r \<and>
               ((400 \<le> status_code r \<and> status_code r < 600) \<or> (\<exists>msg. json_body r = Inl msg)))) \<and>
         (\<forall>r kvs. get (params sb) = Inr r \<and> \<not> (400 \<le> status_code r \<and> status_code r < 600) \<and>
            json_body r = Inr (JObj kvs) \<and>
            (map_of kvs ''results'' = None \<or> map_of kvs ''results'' = Some (JArr [])) \<longrightarrow>
            main pd get sb =
              \<lparr>requests_sent = [params sb],
               display = [St_info ''No drug labels found for the selected parameters.''],
               uncaught = None\<rparr>)"
proof -
  from assms have m: "main pd get sb = fetch_drug_labels pd get (params sb)"
    by (simp add: main_def)
  show ?thesis
    unfolding m using fetch_display_error [of pd get "params sb"]
    by (auto dest: fetch_empty_result [of get "params sb" _ _ pd])
qed

text \<open>
  A response with status 200 whose body is not JSON: the fetch error is shown although
  the request succeeded at the transport level with a success status.
\<close>

theorem fetch_error_counterexample:
  "main sample_pandas (\<lambda>p. Inr (sample_response (Inl ''Expecting value: line 1 column 1 (char 0)'')))
     default_sidebar =
     \<lparr>requests_sent = [params default_sidebar],
      display = [St_error ''Error fetching data from FDA API: Expecting value: line 1 column 1 (char 0)''],
      uncaught = None\<rparr> \<and>
   status_code (sample_response (Inl ''Expecting value: line 1 column 1 (char 0)'')) = 200"
  by (simp add: main_def default_sidebar_def date_gt_def fetch_drug_labels_def sample_response_def
      raise_for_status_def fetch_error_def)

theorem fetch_error_cases_witness:
  "(\<exists>e. display (main sample_pandas
      (\<lambda>p. Inr ((sample_response (Inr (JObj [])))\<lparr>status_code := 500, reason := ''Internal Server Error''\<rparr>))
      default_sidebar) = [fetch_error e]) \<and>
   main sample_pandas (\<lambda>p. Inr (sample_response (Inr (JObj [(''results'', JArr [])])))) default_sidebar =
     \<lparr>requests_sent = [params default_sidebar],
      display = [St_info ''No drug labels found for the selected parameters.''],
      uncaught = None\<rparr> \<and>
   main sample_pandas (\<lambda>p. Inr (sample_response (Inr (JObj [])))) default_sidebar =
     \<lparr>requests_sent = [params default_sidebar],
      display = [St_info ''No drug labels found for the selected parameters.''],
      uncaught = None\<rparr>"
proof -
  have ok: "\<not> date_gt (start_date default_sidebar) (end_date default_sidebar)"
    "fetch_button default_sidebar"
    by (simp_all add: default_sidebar_def date_gt_def)
  from fetch_error_cases [OF ok, of sample_pandas
      "\<lambda>p. Inr ((sample_response (Inr (JObj [])))\<lparr>status_code := 500, reason := ''Internal Server Error''\<rparr>)"]
  have a: "\<exists>e. display (main sample_pandas
      (\<lambda>p. Inr ((sample_response (Inr (JObj [])))\<lparr>status_code := 500, reason := ''Internal Server Error''\<rparr>))
      default_sidebar) = [fetch_error e]"
    by (simp add: sample_response_def)
  from fetch_error_cases [OF ok, of sample_pandas
      "\<lambda>p. Inr (sample_response (Inr (JObj [(''results'', JArr [])])))"]
  have b: "main sample_pandas (\<lambda>p. Inr (sample_response (Inr (JObj [(''results'', JArr [])])))) default_sidebar =
     \<lparr>requests_sent = [params default_sidebar],
      display = [St_info ''No drug labels found for the selected parameters.''],
      uncaught = None\<rparr>"
    by (simp add: sample_response_def)
  from fetch_error_cases [OF ok, of sample_pandas "\<lambda>p. Inr (sample_response (Inr (JObj [])))"]
  have c: "main sample_pandas (\<lambda>p. Inr (sample_response (Inr (JObj [])))) default_sidebar =
     \<lparr>requests_sent = [params default_sidebar],
      display = [St_info ''No drug labels found for the selected parameters.''],
      uncaught = None\<rparr>"
    by (simp add: sample_response_def)
  from a b c show ?thesis by blast
qed

text \<open>
  C9. When the start date is later than the end date the page shows the validation
  error and no request is sent. Otherwise, equal dates included, pressing the button
  runs the fetch, which sends exactly one request with the built parameters; without
  the button nothing is sent.
\<close>

theorem date_validation:
  "(date_gt (start_date sb) (end_date sb) \<longrightarrow>
      main pd get sb =
        \<lparr>requests_sent = [],
         display = [St_error ''Error: Start Date must be before End Date.''],
         uncaught = None\<rparr>) \<and>
   (\<not> date_gt (start_date sb) (end_date sb) \<and> fetch_button sb \<longrightarrow>
      main pd get sb = fetch_drug_labels pd get (params sb) \<and>
      requests_sent (main pd get sb) = [params sb]) \<and>
   (\<not> date_gt (start_date sb) (end_date sb) \<and> \<not> fetch_button sb \<longrightarrow>
      main pd get sb = \<lparr>requests_sent = [], display = [], uncaught = None\<rparr>)"
  by (simp add: main_def requests_sent_fetch)

theorem date_validation_witness:
  "main sample_pandas (\<lambda>p. Inl (ConnectionError ''Connection refused''))
     (default_sidebar\<lparr>start_date := \<lparr>year = 2024, month = 10, day = 31\<rparr>\<rparr>) =
     \<lparr>requests_sent = [],
      display = [St_error ''Error: Start Date must be before End Date.''],
      uncaught = None\<rparr> \<and>
   requests_sent (main sample_pandas (\<lambda>p. Inl (ConnectionError ''Connection refused''))
     (default_sidebar\<lparr>start_date := \<lparr>year = 2024, month = 10, day = 30\<rparr>\<rparr>)) =
     [params (default_sidebar\<lparr>start_date := \<lparr>year = 2024, month = 10, day = 30\<rparr>\<rparr>)]"
proof -
  have gt: "date_gt (start_date (default_sidebar\<lparr>start_date := \<lparr>year = 2024, month = 10, day = 31\<rparr>\<rparr>))
      (end_date (default_sidebar\<lparr>start_date := \<lparr>year = 2024, month = 10, day = 31\<rparr>\<rparr>))"
    by (simp add: default_sidebar_def date_gt_def)
  have eq: "\<not> date_gt (start_date (default_sidebar\<lparr>start_date := \<lparr>year = 2024, month = 10, day = 30\<rparr>\<rparr>))
      (end_date (default_sidebar\<lparr>start_date := \<lparr>year = 2024, month = 10, day = 30\<rparr>\<rparr>))"
    "fetch_button (default_sidebar\<lparr>start_date := \<lparr>year = 2024, month = 10, day = 30\<rparr>\<rparr>)"
    by (simp_all add: default_sidebar_def date_gt_def)
  from gt eq
    date_validation [of "default_sidebar\<lparr>start_date := \<lparr>year = 2024, month = 10, day = 31\<rparr>\<rparr>"
      sample_pandas "\<lambda>p. Inl (ConnectionError ''Connection refused'')"]
    date_validation [of "default_sidebar\<lparr>start_date := \<lparr>year = 2024, month = 10, day = 30\<rparr>\<rparr>"
      sample_pandas "\<lambda>p. Inl (ConnectionError ''Connection refused'')"]
  show ?thesis by blast
qed

text \<open>
  C1 at a record whose \<^verbatim>\<open>openfda.brand_name\<close> is the empty list: the subscript raises
  \<^verbatim>\<open>IndexError\<close>, which the \<^verbatim>\<open>except\<close> clause of the script does not catch; the run ends
  with nothing shown.
\<close>

theorem empty_sequence_raises:
  "drug_entry_of (JObj [(''openfda'', JObj [(''brand_name'', JArr [])])]) = Inl IndexError \<and>
   main sample_pandas
     (\<lambda>p. Inr (sample_response (Inr (JObj [(''results'',
        JArr [JObj [(''openfda'', JObj [(''brand_name'', JArr [])])]])]))))
     default_sidebar =
     \<lparr>requests_sent = [params default_sidebar], display = [], uncaught = Some IndexError\<rparr>"
proof -
  have e: "drug_entry_of (JObj [(''openfda'', JObj [(''brand_name'', JArr [])])]) = Inl IndexError"
    by (simp add: drug_entry_of_def openfda_first_def)
  then show ?thesis
    by (simp add: main_def default_sidebar_def date_gt_def fetch_drug_labels_def sample_response_def
      raise_for_status_def show_results_def)
qed

section \<open>Properties of the parsed effective time\<close>





















end
